theory Spec2Isabelle
  imports Complex_Main
begin

section \<open>The example drivers of the PUMAS transport engine\<close>

text \<open>
  The development embeds the collaborator callbacks of the two example drivers:
  \<^verbatim>\<open>examples/geometry.c\<close> (a flat rock layer below an exponential atmosphere,
  backward flux computation) and the box driver (a rock cube inside an air cube).

  A C \<^verbatim>\<open>double\<close> is modelled as a \<^typ>\<open>real\<close>: arithmetic is exact and every
  value is finite, so rounding, overflow, infinities and NaN are outside the model.
  A \<^verbatim>\<open>double[3]\<close> is a list read with \<open>!\<close> and written with \<open>[i := v]\<close>;
  the constant indices 0, 1, 2 of the source are in range for a list of length 3.
\<close>

subsection \<open>Data model\<close>

text \<open>
  The fields of \<^verbatim>\<open>struct pumas_state\<close> and \<^verbatim>\<open>struct pumas_locals\<close> that the
  drivers read or write. The records are extensible, so a statement about a callback
  holds whatever further fields the structures carry.
\<close>

record pumas_state =
  charge :: real
  kinetic :: real
  distance :: real
  weight :: real
  position :: "real list"
  direction :: "real list"

record pumas_locals =
  density :: real
  magnet :: "real list"

text \<open>
  The value of a \<^verbatim>\<open>struct pumas_medium *\<close>: the null pointer, or the address
  \<open>base + i\<close> of the \<open>i\<close>-th entry of the driver's media container
  (\<^verbatim>\<open>media\<close> in geometry.c, \<^verbatim>\<open>context->user_data\<close> in the box driver). In both
  drivers entry 0 is the rock and entry 1 is the air.
\<close>

datatype medium_ref = Null | Entry nat

subsection \<open>Constants\<close>

text \<open>\<^verbatim>\<open>#define PRIMARY_ALTITUDE 1E+03\<close>\<close>

definition PRIMARY_ALTITUDE :: real where
  "PRIMARY_ALTITUDE = 1000"

text \<open>\<^verbatim>\<open>FLT_EPSILON\<close> of \<^verbatim>\<open>float.h\<close> for IEEE-754 single precision: \<open>2\<^sup>-\<^sup>2\<^sup>3\<close>.\<close>

definition FLT_EPSILON :: real where
  "FLT_EPSILON = 1 / 2 ^ 23"

subsection \<open>The random callback\<close>

text \<open>
  \<^verbatim>\<open>return rand() / (double)RAND_MAX;\<close>
  The generator's state belongs to the C library; the model takes the integer \<open>r\<close>
  that the call of \<^verbatim>\<open>rand()\<close> returns, and the implementation-defined constant
  \<^verbatim>\<open>RAND_MAX\<close>, as parameters. The C standard gives \<open>0 \<le> r \<le> RAND_MAX\<close> and
  \<open>32767 \<le> RAND_MAX\<close>.
\<close>

definition uniform01 :: "int \<Rightarrow> int \<Rightarrow> real" where
  "uniform01 RAND_MAX r = real_of_int r / real_of_int RAND_MAX"

subsection \<open>The locals callbacks of geometry.c\<close>

text \<open>
  A locals callback receives the medium, the state and a pointer to the locals
  record; it returns the proposed step and the model returns the updated record with
  it. Neither callback writes the medium or the state.
  \<^verbatim>\<open>locals->density = 2.65E+03; return 0.;\<close>
\<close>

definition locals_rock ::
  "medium_ref \<Rightarrow> 'a pumas_state_scheme \<Rightarrow> 'b pumas_locals_scheme \<Rightarrow>
   real \<times> 'b pumas_locals_scheme" where
  "locals_rock medium state locals = (0, locals\<lparr>density := 2650\<rparr>)"

text \<open>
  The atmosphere: three stores to \<^verbatim>\<open>locals->magnet\<close>, one to
  \<^verbatim>\<open>locals->density\<close>, and the step \<^verbatim>\<open>1E-02 * h / ((uz <= eps) ? eps : uz)\<close>
  with \<^verbatim>\<open>uz = fabs(state->direction[2])\<close>.
\<close>

definition locals_air ::
  "medium_ref \<Rightarrow> 'a pumas_state_scheme \<Rightarrow> 'b pumas_locals_scheme \<Rightarrow>
   real \<times> 'b pumas_locals_scheme" where
  "locals_air medium state locals =
     (let l1 = locals\<lparr>magnet := (magnet locals)[0 := 0]\<rparr>;
          l2 = l1\<lparr>magnet := (magnet l1)[1 := 2 / 10 ^ 5]\<rparr>;
          l3 = l2\<lparr>magnet := (magnet l2)[2 := - 4 / 10 ^ 5]\<rparr>;
          rho0 = 1.205;
          h = 12000;
          l4 = l3\<lparr>density := rho0 * exp (- (position state ! 2) / h)\<rparr>;
          eps = 5 / 10 ^ 2;
          uz = \<bar>direction state ! 2\<bar>
      in (1 / 10 ^ 2 * h / (if uz \<le> eps then eps else uz), l4))"

subsection \<open>The medium callback of geometry.c\<close>

text \<open>
  \<^verbatim>\<open>if (medium_ptr != NULL) *medium_ptr = v;\<close>
  The out-parameter is \<open>None\<close> for a null \<^verbatim>\<open>medium_ptr\<close> and \<open>Some c\<close> for a
  pointer to a cell holding \<open>c\<close>; the callback returns the cell after the call.
\<close>

definition store_medium :: "medium_ref option \<Rightarrow> medium_ref \<Rightarrow> medium_ref option" where
  "store_medium medium_ptr v = (case medium_ptr of None \<Rightarrow> None | Some c \<Rightarrow> Some v)"

text \<open>
  The file-scope variable \<^verbatim>\<open>rock_thickness\<close> is the first parameter. The result is
  the returned step and the cell behind \<^verbatim>\<open>medium_ptr\<close>.
\<close>

definition medium2 ::
  "real \<Rightarrow> 'a pumas_state_scheme \<Rightarrow> medium_ref option \<Rightarrow> real \<times> medium_ref option" where
  "medium2 rock_thickness state medium_ptr =
     (let z = position state ! 2;
          uz = direction state ! 2
      in if z < 0 then (- 1, store_medium medium_ptr Null)
         else if z < rock_thickness then
           (if uz > FLT_EPSILON then z / uz
            else if uz < - FLT_EPSILON then (z - rock_thickness) / uz
            else 1000,
            store_medium medium_ptr (Entry 0))
         else if z < PRIMARY_ALTITUDE then
           (if uz > FLT_EPSILON then (z - rock_thickness) / uz
            else if uz < - FLT_EPSILON then (z - PRIMARY_ALTITUDE) / uz
            else 1000,
            store_medium medium_ptr (Entry 1))
         else (- 1, store_medium medium_ptr Null))"

text \<open>
  \<^verbatim>\<open>main\<close> assigns \<^verbatim>\<open>rock_thickness\<close> once, from \<^verbatim>\<open>strtod(argv[1], NULL)\<close>, before
  any transport, and exits with \<^verbatim>\<open>EINVAL\<close> when the value is refused.
\<close>

datatype errno = EINVAL

definition parse_rock_thickness :: "real \<Rightarrow> errno + real" where
  "parse_rock_thickness v =
     (if v < 0 \<or> v > PRIMARY_ALTITUDE then Inl EINVAL else Inr v)"

subsection \<open>The medium callback of the box driver\<close>

text \<open>
  \<^verbatim>\<open>extended = context->user_data\<close> is the base of the container: \<^verbatim>\<open>extended\<close> is
  entry 0 (StandardRock in \<^verbatim>\<open>main\<close>) and \<^verbatim>\<open>extended + 1\<close> is entry 1 (Air). The
  whole classification is under \<^verbatim>\<open>if (medium_ptr != NULL)\<close>; the step is 1 on
  every path.
\<close>

definition medium ::
  "'a pumas_state_scheme \<Rightarrow> medium_ref option \<Rightarrow> real \<times> medium_ref option" where
  "medium state medium_ptr =
     (1,
      case medium_ptr of
        None \<Rightarrow> None
      | Some c \<Rightarrow>
          (let r = position state
           in if \<bar>r ! 0\<bar> > 4 \<or> \<bar>r ! 1\<bar> > 4 \<or> \<bar>r ! 2\<bar> > 4 then Some Null
              else if \<bar>r ! 0\<bar> > 1 \<or> \<bar>r ! 1\<bar> > 1 \<or> \<bar>r ! 2\<bar> > 1 then Some (Entry 1)
              else Some (Entry 0)))"

subsection \<open>The C library's mathematical functions\<close>

text \<open>
  \<^verbatim>\<open>pow\<close> and \<^verbatim>\<open>sqrt\<close> of \<^verbatim>\<open>math.h\<close> on finite arguments. The result is
  \<open>None\<close> where the C function has no finite real value: a domain error (NaN) or a
  pole error (an infinity).
\<close>

definition c_pow :: "real \<Rightarrow> real \<Rightarrow> real option" where
  "c_pow x y =
     (if 0 < x then Some (x powr y)
      else if x = 0 then (if 0 < y then Some 0 else if y = 0 then Some 1 else None)
      else if y \<in> \<int> then Some (x powi \<lfloor>y\<rfloor>)
      else None)"

definition c_sqrt :: "real \<Rightarrow> real option" where
  "c_sqrt x = (if x < 0 then None else Some (sqrt x))"

subsection \<open>Volkova's parameterisation\<close>

text \<open>
  \<^verbatim>\<open>cos_theta_star\<close>. When a call of \<^verbatim>\<open>pow\<close> has a domain error its NaN propagates
  to \<^verbatim>\<open>cs2\<close>, the comparison \<^verbatim>\<open>cs2 > 0.\<close> is false and the function returns 0
  without calling \<^verbatim>\<open>sqrt\<close>.
\<close>

definition cos_theta_star :: "real \<Rightarrow> real option" where
  "cos_theta_star cos_theta =
     (let p = [0.102573, - 0.068287, 0.958633, 0.0407253, 0.817285]
      in case (c_pow cos_theta (p ! 2), c_pow cos_theta (p ! 4)) of
           (Some a, Some b) \<Rightarrow>
             (let cs2 = (cos_theta * cos_theta + p ! 0 * p ! 0 + p ! 1 * a + p ! 3 * b) /
                        (1 + p ! 0 * p ! 0 + p ! 1 + p ! 3)
              in if cs2 > 0 then c_sqrt cs2 else Some 0)
         | _ \<Rightarrow> Some 0)"

section \<open>Properties\<close>

subsection \<open>Auxiliary facts\<close>

lemma FLT_EPSILON_pos: "0 < FLT_EPSILON"
  by (simp add: FLT_EPSILON_def)

lemma c_pow_nonneg_base:
  assumes "0 \<le> x" and "0 < y"
  shows "c_pow x y = Some (x powr y)"
  using assms by (simp add: c_pow_def)

subsection \<open>The medium callback of geometry.c\<close>

text \<open>
  C1: for a rock thickness that \<^verbatim>\<open>main\<close> accepts and every state, \<open>medium2\<close>
  stores the null medium exactly when \<open>z < 0\<close> or \<open>z \<ge> PRIMARY_ALTITUDE\<close>, and
  then returns the step \<open>- 1\<close>; inside the volume it stores the rock (entry 0) when
  \<open>z < rock_thickness\<close> and the air (entry 1) when \<open>rock_thickness \<le> z\<close>. With a
  null \<^verbatim>\<open>medium_ptr\<close> nothing is stored and the step is the same.
\<close>

theorem medium2_reports_medium:
  assumes "parse_rock_thickness v = Inr rock_thickness"
  shows "let z = position state ! 2;
             res = medium2 rock_thickness state (Some c)
         in (snd res = Some Null \<longleftrightarrow> z < 0 \<or> z \<ge> PRIMARY_ALTITUDE) \<and>
            (z < 0 \<or> z \<ge> PRIMARY_ALTITUDE \<longrightarrow> fst res = - 1 \<and> fst res \<le> 0) \<and>
            (0 \<le> z \<and> z < PRIMARY_ALTITUDE \<and> z < rock_thickness \<longrightarrow> snd res = Some (Entry 0)) \<and>
            (0 \<le> z \<and> z < PRIMARY_ALTITUDE \<and> rock_thickness \<le> z \<longrightarrow> snd res = Some (Entry 1)) \<and>
            snd (medium2 rock_thickness state None) = None \<and>
            fst (medium2 rock_thickness state None) = fst res"
  using assms
  by (auto simp: medium2_def parse_rock_thickness_def store_medium_def Let_def PRIMARY_ALTITUDE_def
      split: if_splits)

theorem medium2_reports_medium_witness:
  "parse_rock_thickness 10 = Inr 10 \<and>
   medium2 10 \<lparr>charge = - 1, kinetic = 1, distance = 0, weight = 1,
               position = [0, 0, - 3], direction = [0, 0, 1]\<rparr> (Some (Entry 0)) = (- 1, Some Null) \<and>
   snd (medium2 10 \<lparr>charge = - 1, kinetic = 1, distance = 0, weight = 1,
               position = [0, 0, 5], direction = [0, 0, 1]\<rparr> (Some Null)) = Some (Entry 0) \<and>
   snd (medium2 10 \<lparr>charge = - 1, kinetic = 1, distance = 0, weight = 1,
               position = [0, 0, 500], direction = [0, 0, 1]\<rparr> (Some Null)) = Some (Entry 1) \<and>
   medium2 10 \<lparr>charge = - 1, kinetic = 1, distance = 0, weight = 1,
               position = [0, 0, 1000], direction = [0, 0, 1]\<rparr> (Some (Entry 1)) = (- 1, Some Null)"
proof -
  have h: "parse_rock_thickness 10 = Inr 10"
    by (simp add: parse_rock_thickness_def PRIMARY_ALTITUDE_def)
  note t = medium2_reports_medium [OF h]
  show ?thesis
    using h
      t [of "\<lparr>charge = - 1, kinetic = 1, distance = 0, weight = 1,
               position = [0, 0, - 3], direction = [0, 0, 1]\<rparr>" "Entry 0"]
      t [of "\<lparr>charge = - 1, kinetic = 1, distance = 0, weight = 1,
               position = [0, 0, 5], direction = [0, 0, 1]\<rparr>" Null]
      t [of "\<lparr>charge = - 1, kinetic = 1, distance = 0, weight = 1,
               position = [0, 0, 500], direction = [0, 0, 1]\<rparr>" Null]
      t [of "\<lparr>charge = - 1, kinetic = 1, distance = 0, weight = 1,
               position = [0, 0, 1000], direction = [0, 0, 1]\<rparr>" "Entry 1"]
    by (simp add: Let_def PRIMARY_ALTITUDE_def prod_eq_iff)
qed

text \<open>
  C2, as stated: inside the volume with \<open>|uz| > FLT_EPSILON\<close> the step is strictly
  positive. It fails on the lower boundary of a layer for a direction with
  \<open>uz > FLT_EPSILON\<close>: with the initial \<^verbatim>\<open>rock_thickness = 0\<close>, at \<open>z = 0\<close> and
  \<open>uz = 1\<close> the state is in the air layer and the step is \<open>(0 - 0) / 1 = 0\<close>.
\<close>

theorem medium2_step_zero_on_boundary:
  "parse_rock_thickness 0 = Inr 0 \<and>
   (0::real) \<le> [0, 0, 0] ! 2 \<and> [0, 0, 0] ! 2 < PRIMARY_ALTITUDE \<and>
   FLT_EPSILON < \<bar>[0, 0, 1] ! 2\<bar> \<and>
   fst (medium2 0 \<lparr>charge = - 1, kinetic = 1, distance = 0, weight = 1,
                    position = [0, 0, 0], direction = [0, 0, 1]\<rparr> (Some Null)) = 0"
  by (simp add: medium2_def parse_rock_thickness_def PRIMARY_ALTITUDE_def FLT_EPSILON_def)

text \<open>
  C2, amended: inside the volume with \<open>|uz| > FLT_EPSILON\<close> the step is non-negative,
  and it is 0 exactly when \<open>uz > FLT_EPSILON\<close> and \<open>z\<close> is on the lower boundary of
  its layer (\<open>z = 0\<close> in the rock, \<open>z = rock_thickness\<close> in the air). The step is the
  quotient the claim names, and moving back by it along the direction reaches the
  adjacent boundary: \<open>z - step * uz\<close> is 0 or \<open>rock_thickness\<close> in the rock and
  \<open>rock_thickness\<close> or \<open>PRIMARY_ALTITUDE\<close> in the air. With
  \<open>|uz| \<le> FLT_EPSILON\<close> the step is 1000.
\<close>

theorem medium2_step_inside:
  assumes "0 \<le> position state ! 2" and "position state ! 2 < PRIMARY_ALTITUDE"
  shows "let z = position state ! 2;
             uz = direction state ! 2;
             step = fst (medium2 rock_thickness state medium_ptr)
         in (\<bar>uz\<bar> \<le> FLT_EPSILON \<longrightarrow> step = 1000) \<and>
            (FLT_EPSILON < \<bar>uz\<bar> \<longrightarrow>
               0 \<le> step \<and>
               (step = 0 \<longleftrightarrow> FLT_EPSILON < uz \<and> z = (if z < rock_thickness then 0 else rock_thickness)) \<and>
               step = (if z < rock_thickness
                       then (if FLT_EPSILON < uz then z / uz else (z - rock_thickness) / uz)
                       else (if FLT_EPSILON < uz then (z - rock_thickness) / uz
                             else (z - PRIMARY_ALTITUDE) / uz)) \<and>
               z - step * uz = (if z < rock_thickness
                                then (if FLT_EPSILON < uz then 0 else rock_thickness)
                                else (if FLT_EPSILON < uz then rock_thickness
                                      else PRIMARY_ALTITUDE)))"
proof -
  define z where "z = position state ! 2"
  define uz where "uz = direction state ! 2"
  define step where "step = fst (medium2 rock_thickness state medium_ptr)"
  have z0: "0 \<le> z" and z1: "z < PRIMARY_ALTITUDE"
    using assms by (simp_all add: z_def)
  have eps: "0 < FLT_EPSILON" by (rule FLT_EPSILON_pos)
  have step_eq: "step =
      (if z < rock_thickness
       then (if FLT_EPSILON < uz then z / uz
             else if uz < - FLT_EPSILON then (z - rock_thickness) / uz else 1000)
       else (if FLT_EPSILON < uz then (z - rock_thickness) / uz
             else if uz < - FLT_EPSILON then (z - PRIMARY_ALTITUDE) / uz else 1000))"
    using z0 z1 by (simp add: step_def medium2_def Let_def z_def uz_def)
  have flat: "step = 1000" if "\<bar>uz\<bar> \<le> FLT_EPSILON"
  proof -
    have "\<not> FLT_EPSILON < uz" and "\<not> uz < - FLT_EPSILON"
      using that by auto
    then show ?thesis by (simp add: step_eq)
  qed
  have pos: "0 \<le> step" if "FLT_EPSILON < \<bar>uz\<bar>"
    using that eps z0 z1 by (auto simp: step_eq divide_nonneg_pos divide_nonpos_neg)
  have zero: "step = 0 \<longleftrightarrow> FLT_EPSILON < uz \<and> z = (if z < rock_thickness then 0 else rock_thickness)"
    if "FLT_EPSILON < \<bar>uz\<bar>"
    using that eps z0 z1 by (auto simp: step_eq)
  have val: "step = (if z < rock_thickness
                       then (if FLT_EPSILON < uz then z / uz else (z - rock_thickness) / uz)
                       else (if FLT_EPSILON < uz then (z - rock_thickness) / uz
                             else (z - PRIMARY_ALTITUDE) / uz))"
    if "FLT_EPSILON < \<bar>uz\<bar>"
    using that eps by (auto simp: step_eq)
  have reach: "z - step * uz = (if z < rock_thickness
                                then (if FLT_EPSILON < uz then 0 else rock_thickness)
                                else (if FLT_EPSILON < uz then rock_thickness
                                      else PRIMARY_ALTITUDE))"
    if "FLT_EPSILON < \<bar>uz\<bar>"
  proof -
    have "uz \<noteq> 0" using that eps by auto
    then show ?thesis by (simp add: val [OF that])
  qed
  show ?thesis
    unfolding Let_def z_def [symmetric] uz_def [symmetric] step_def [symmetric]
    using flat pos zero val reach by blast
qed

theorem medium2_step_inside_witness:
  "(0::real) \<le> 500 \<and> 500 < PRIMARY_ALTITUDE \<and> FLT_EPSILON < \<bar>- 1\<bar> \<and> \<bar>0\<bar> \<le> FLT_EPSILON \<and>
   fst (medium2 100 \<lparr>charge = - 1, kinetic = 1, distance = 0, weight = 1,
                      position = [0, 0, 500], direction = [0, 0, - 1]\<rparr> None) = 500 \<and>
   fst (medium2 100 \<lparr>charge = - 1, kinetic = 1, distance = 0, weight = 1,
                      position = [0, 0, 500], direction = [1, 0, 0]\<rparr> None) = 1000"
  using
    medium2_step_inside [of "\<lparr>charge = - 1, kinetic = 1, distance = 0, weight = 1,
                      position = [0, 0, 500], direction = [0, 0, - 1]\<rparr>" 100 None]
    medium2_step_inside [of "\<lparr>charge = - 1, kinetic = 1, distance = 0, weight = 1,
                      position = [0, 0, 500], direction = [1, 0, 0]\<rparr>" 100 None]
  by (simp add: Let_def PRIMARY_ALTITUDE_def FLT_EPSILON_def)

subsection \<open>The random callback\<close>

text \<open>
  C3, as stated: every value of \<open>uniform01\<close> is strictly below 1. It fails when
  \<^verbatim>\<open>rand()\<close> returns \<^verbatim>\<open>RAND_MAX\<close> (here glibc's \<open>2\<^sup>3\<^sup>1 - 1\<close>): the quotient is
  exactly 1.
\<close>

theorem uniform01_reaches_one:
  "uniform01 2147483647 2147483647 = 1"
  by (simp add: uniform01_def)

text \<open>
  C3, amended: for every value \<open>r\<close> of \<^verbatim>\<open>rand()\<close> in \<open>[0, RAND_MAX]\<close> the result of
  \<open>uniform01\<close> lies in the closed interval \<open>[0, 1]\<close>, as the comment above the
  function says; it is strictly below 1 exactly when \<open>r < RAND_MAX\<close>.
\<close>

theorem uniform01_closed_unit_interval:
  assumes "0 < RAND_MAX" and "0 \<le> r" and "r \<le> RAND_MAX"
  shows "0 \<le> uniform01 RAND_MAX r \<and> uniform01 RAND_MAX r \<le> 1 \<and>
         (uniform01 RAND_MAX r < 1 \<longleftrightarrow> r < RAND_MAX)"
  using assms by (simp add: uniform01_def)

theorem uniform01_closed_unit_interval_witness:
  "(0::int) < 32767 \<and> (0::int) \<le> 5 \<and> (5::int) \<le> 32767 \<and>
   0 \<le> uniform01 32767 5 \<and> uniform01 32767 5 \<le> 1 \<and> uniform01 32767 5 < 1"
  using uniform01_closed_unit_interval [of 32767 5] by simp

subsection \<open>The locals callbacks of geometry.c\<close>

text \<open>
  C5: the density that \<open>locals_rock\<close> stores is exactly 2650, and the density that
  \<open>locals_air\<close> stores is \<open>1.205 * exp (- z / 12000)\<close>, strictly positive for every
  position; both satisfy the requirement that a density is not negative.
\<close>

theorem locals_density_positive:
  "density (snd (locals_rock m state locals)) = 2650 \<and>
   0 \<le> density (snd (locals_rock m state locals)) \<and>
   density (snd (locals_air m state locals)) = 1.205 * exp (- (position state ! 2) / 12000) \<and>
   0 < density (snd (locals_air m state locals))"
  by (simp add: locals_rock_def locals_air_def Let_def)

text \<open>
  C6: for a state whose direction has unit length, the step that \<open>locals_air\<close>
  returns is \<open>0.01 * 12000 / max 0.05 |uz|\<close>, lies in \<open>[120, 2400]\<close> and is strictly
  positive; \<open>locals_rock\<close> returns 0.
\<close>

theorem locals_step_proposal:
  assumes "(direction state ! 0)\<^sup>2 + (direction state ! 1)\<^sup>2 + (direction state ! 2)\<^sup>2 = 1"
  shows "fst (locals_air m state locals) = 0.01 * 12000 / max 0.05 \<bar>direction state ! 2\<bar> \<and>
         120 \<le> fst (locals_air m state locals) \<and>
         fst (locals_air m state locals) \<le> 2400 \<and>
         0 < fst (locals_air m state locals) \<and>
         fst (locals_rock m' state locals') = 0"
proof -
  define uz where "uz = \<bar>direction state ! 2\<bar>"
  have "(direction state ! 2)\<^sup>2 \<le> 1"
    using assms zero_le_power2 [of "direction state ! 0"] zero_le_power2 [of "direction state ! 1"]
    by linarith
  then have uz1: "uz \<le> 1"
    unfolding uz_def by (simp add: abs_le_square_iff [of _ 1, simplified] power2_le_iff_abs_le)
  define d where "d = max 0.05 uz"
  have d_lo: "1 / 20 \<le> d" and d_hi: "d \<le> 1"
    using uz1 by (simp_all add: d_def)
  have step: "fst (locals_air m state locals) = 120 / d"
    by (simp add: locals_air_def Let_def d_def uz_def max_def)
  have d_pos: "0 < d" using d_lo by linarith
  have "120 \<le> 120 / d"
    using d_pos d_hi by (simp add: le_divide_eq)
  moreover have "120 / d \<le> 2400"
    using d_pos d_lo by (simp add: divide_le_eq)
  moreover have "0 < 120 / d"
    using d_pos by simp
  moreover have "fst (locals_air m state locals) = 0.01 * 12000 / max 0.05 \<bar>direction state ! 2\<bar>"
    by (simp add: step d_def uz_def)
  moreover have "fst (locals_rock m' state locals') = 0"
    by (simp add: locals_rock_def)
  ultimately show ?thesis
    by (simp add: step)
qed

theorem locals_step_proposal_witness:
  "((0::real)\<^sup>2 + 0\<^sup>2 + 1\<^sup>2 = 1) \<and>
   fst (locals_air (Entry 1) \<lparr>charge = - 1, kinetic = 1, distance = 0, weight = 1,
          position = [0, 0, 0], direction = [0, 0, 1]\<rparr> \<lparr>density = 0, magnet = [0, 0, 0]\<rparr>) = 120 \<and>
   fst (locals_rock (Entry 0) \<lparr>charge = - 1, kinetic = 1, distance = 0, weight = 1,
          position = [0, 0, 0], direction = [0, 0, 1]\<rparr> \<lparr>density = 0, magnet = [0, 0, 0]\<rparr>) = 0"
  using locals_step_proposal [of "\<lparr>charge = - 1, kinetic = 1, distance = 0, weight = 1,
          position = [0, 0, 0], direction = [0, 0, 1]\<rparr>" "Entry 1" "\<lparr>density = 0, magnet = [0, 0, 0]\<rparr>"
          "Entry 0" "\<lparr>density = 0, magnet = [0, 0, 0]\<rparr>"]
  by simp

text \<open>
  C9: \<open>locals_rock\<close> changes the density field only, so the magnetic field (and any
  further field) keeps the value it had before the call; \<open>locals_air\<close> stores the
  density and the components 0, 1 and 2 of the magnetic field, so that for a field of
  three components nothing of the old field remains.
\<close>

theorem locals_frame:
  "snd (locals_rock m state locals) = locals\<lparr>density := 2650\<rparr> \<and>
   magnet (snd (locals_rock m state locals)) = magnet locals \<and>
   snd (locals_air m state locals) =
     locals\<lparr>density := 1.205 * exp (- (position state ! 2) / 12000),
            magnet := (magnet locals)[0 := 0, 1 := 2 / 10 ^ 5, 2 := - 4 / 10 ^ 5]\<rparr> \<and>
   magnet (snd (locals_air m state (locals\<lparr>magnet := [b0, b1, b2]\<rparr>))) =
     [0, 2 / 10 ^ 5, - 4 / 10 ^ 5]"
  by (simp add: locals_rock_def locals_air_def Let_def numeral_2_eq_2)

subsection \<open>The medium callback of the box driver\<close>

text \<open>
  C8: the step is 1 on every path, also when the null medium is stored. For a
  non-null \<^verbatim>\<open>medium_ptr\<close> the callback stores the null medium exactly when
  \<open>max (|x|, |y|, |z|) > 4\<close>, the inner rock (entry 0) exactly when the maximum is at
  most 1, and the air (entry 1) exactly when it is in between. For a null
  \<^verbatim>\<open>medium_ptr\<close> nothing is stored.
\<close>

theorem medium_box_nesting:
  "fst (medium state medium_ptr) = 1 \<and>
   snd (medium state None) = None \<and>
   (snd (medium state (Some c)) = Some Null \<longleftrightarrow>
      max (max \<bar>position state ! 0\<bar> \<bar>position state ! 1\<bar>) \<bar>position state ! 2\<bar> > 4) \<and>
   (snd (medium state (Some c)) = Some (Entry 0) \<longleftrightarrow>
      max (max \<bar>position state ! 0\<bar> \<bar>position state ! 1\<bar>) \<bar>position state ! 2\<bar> \<le> 1) \<and>
   (snd (medium state (Some c)) = Some (Entry 1) \<longleftrightarrow>
      1 < max (max \<bar>position state ! 0\<bar> \<bar>position state ! 1\<bar>) \<bar>position state ! 2\<bar> \<and>
      max (max \<bar>position state ! 0\<bar> \<bar>position state ! 1\<bar>) \<bar>position state ! 2\<bar> \<le> 4)"
proof -
  define x where "x = \<bar>position state ! 0\<bar>"
  define y where "y = \<bar>position state ! 1\<bar>"
  define z where "z = \<bar>position state ! 2\<bar>"
  have step: "fst (medium state medium_ptr) = 1"
    by (simp add: medium_def)
  have null: "snd (medium state None) = None"
    by (simp add: medium_def)
  have cell: "snd (medium state (Some c)) =
      Some (if 4 < max (max x y) z then Null
            else if 1 < max (max x y) z then Entry 1 else Entry 0)"
    by (simp add: medium_def Let_def x_def y_def z_def less_max_iff_disj)
  have "(snd (medium state (Some c)) = Some Null) = (4 < max (max x y) z)"
    by (simp add: cell)
  moreover have "(snd (medium state (Some c)) = Some (Entry 0)) = (max (max x y) z \<le> 1)"
    by (auto simp: cell)
  moreover have "(snd (medium state (Some c)) = Some (Entry 1)) =
      (1 < max (max x y) z \<and> max (max x y) z \<le> 4)"
    by (auto simp: cell)
  ultimately show ?thesis
    using step null unfolding x_def y_def z_def by blast
qed

subsection \<open>Volkova's parameterisation\<close>

text \<open>
  C10: for \<open>cos_theta\<close> in \<open>[0, 1]\<close> both calls of \<^verbatim>\<open>pow\<close> have a finite value, the
  denominator of \<open>cs2\<close> is not zero, and \<open>cos_theta_star\<close> returns the square root of
  \<open>cs2\<close> when \<open>cs2 > 0\<close> and 0 otherwise: it returns a value, never the failure of
  \<^verbatim>\<open>sqrt\<close>, and the value is not negative.
\<close>

theorem cos_theta_star_total:
  assumes "0 \<le> cos_theta" and "cos_theta \<le> 1"
  shows "c_pow cos_theta 0.958633 = Some (cos_theta powr 0.958633) \<and>
         c_pow cos_theta 0.817285 = Some (cos_theta powr 0.817285) \<and>
         (1 + 0.102573 * 0.102573 + - 0.068287 + 0.0407253 \<noteq> (0::real)) \<and>
         (let cs2 = (cos_theta * cos_theta + 0.102573 * 0.102573 +
                     - 0.068287 * cos_theta powr 0.958633 +
                     0.0407253 * cos_theta powr 0.817285) /
                    (1 + 0.102573 * 0.102573 + - 0.068287 + 0.0407253)
          in cos_theta_star cos_theta = Some (if cs2 > 0 then sqrt cs2 else 0)) \<and>
         (\<exists>v. cos_theta_star cos_theta = Some v \<and> 0 \<le> v)"
proof -
  have a: "c_pow cos_theta 0.958633 = Some (cos_theta powr 0.958633)"
    using assms(1) by (intro c_pow_nonneg_base) simp_all
  have b: "c_pow cos_theta 0.817285 = Some (cos_theta powr 0.817285)"
    using assms(1) by (intro c_pow_nonneg_base) simp_all
  have den: "1 + 0.102573 * 0.102573 + - 0.068287 + 0.0407253 \<noteq> (0::real)"
    by simp
  define cs2 where "cs2 = (cos_theta * cos_theta + 0.102573 * 0.102573 +
                     - 0.068287 * cos_theta powr 0.958633 +
                     0.0407253 * cos_theta powr 0.817285) /
                    (1 + 0.102573 * 0.102573 + - 0.068287 + 0.0407253)"
  have run: "cos_theta_star cos_theta = Some (if cs2 > 0 then sqrt cs2 else 0)"
    unfolding cos_theta_star_def Let_def
    by (simp add: a [simplified] b [simplified] c_sqrt_def cs2_def)
  have "0 \<le> (if cs2 > 0 then sqrt cs2 else 0)"
    by simp
  then have "\<exists>v. cos_theta_star cos_theta = Some v \<and> 0 \<le> v"
    using run by blast
  then show ?thesis
    using a b den run unfolding cs2_def Let_def by blast
qed

theorem cos_theta_star_total_witness:
  "(0::real) \<le> 1 \<and> (1::real) \<le> 1 \<and> cos_theta_star 1 = Some 1"
  using cos_theta_star_total [of 1] by (simp add: Let_def)

end
